theory Spec2Isabelle
  imports Complex_Main
begin

section \<open>JavaScript primitives used by the ATS scoring engine\<close>

text \<open>
  The engine (\<^verbatim>\<open>lib/atsApi\<close>) works on two primitive types. A \<^verbatim>\<open>number\<close> is modelled as
  an exact rational, with 0.4 and 0.3 as 4 / 10 and 3 / 10. The engine computes quotients of
  two list lengths and sums of their products with small constants; the concrete values
  fixed below (30 on the empty text, the smallest weighted sum 19.5, the score 71.25 of the
  summarization adapter) are the same in binary floating point. A \<^verbatim>\<open>string\<close> is
  modelled as a list of characters with codes below 256 (ISO 8859-1), on which
  \<^verbatim>\<open>toLowerCase\<close> and the regular expression class \<^verbatim>\<open>\s\<close> are written out in full.
\<close>

type_synonym number = rat

definition js_round :: "number \<Rightarrow> number" where
  \<comment> \<open>\<^verbatim>\<open>Math.round\<close>: the nearest integer, a tie going up.\<close>
  "js_round x = of_int \<lfloor>x + 1 / 2\<rfloor>"

definition toLowerCaseChar :: "char \<Rightarrow> char" where
  "toLowerCaseChar c =
     (let n = (of_char c :: nat)
      in if (65 \<le> n \<and> n \<le> 90) \<or> (192 \<le> n \<and> n \<le> 222 \<and> n \<noteq> 215)
         then char_of (n + 32) else c)"

definition toLowerCase :: "string \<Rightarrow> string" where
  "toLowerCase s = map toLowerCaseChar s"

definition is_space :: "char \<Rightarrow> bool" where
  \<comment> \<open>the class \<^verbatim>\<open>\s\<close>: tab, line feed, vertical tab, form feed, carriage return, space,
      no-break space\<close>
  "is_space c = ((of_char c :: nat) \<in> {9, 10, 11, 12, 13, 32, 160})"

fun split_ws_from :: "bool \<Rightarrow> string \<Rightarrow> string \<Rightarrow> string list" where
  \<comment> \<open>\<^verbatim>\<open>split(/\s+/)\<close>, scanning: the flag says that the scan is inside a separator run,
      the second argument is the current piece, reversed\<close>
  "split_ws_from insep cur [] = [rev cur]"
| "split_ws_from insep cur (c # cs) =
     (if is_space c
      then (if insep then split_ws_from True cur cs
            else rev cur # split_ws_from True [] cs)
      else split_ws_from False (c # cur) cs)"

definition split_ws :: "string \<Rightarrow> string list" where
  "split_ws s = split_ws_from False [] s"

fun startsWith :: "string \<Rightarrow> string \<Rightarrow> bool" where
  "startsWith t [] = True"
| "startsWith [] (k # ks) = False"
| "startsWith (c # cs) (k # ks) = (c = k \<and> startsWith cs ks)"

fun includes_str :: "string \<Rightarrow> string \<Rightarrow> bool" where
  \<comment> \<open>\<^verbatim>\<open>String.prototype.includes\<close>: the second string occurs in the first\<close>
  "includes_str [] k = (k = [])"
| "includes_str (c # cs) k = (startsWith (c # cs) k \<or> includes_str cs k)"

section \<open>The result type\<close>

record breakdown =
  keywordMatch :: number
  formatting :: number
  structure_field :: number
  contentQuality :: number

record ATSScoreResult =
  score :: number
  suggestions :: "string list"
  keywords_field :: "string list"
  missingKeywords :: "string list"
  breakdown :: "breakdown option"

section \<open>Suggestion generator\<close>

definition generateSuggestions :: "number \<Rightarrow> string list" where
  "generateSuggestions s =
     (if s < 60 then
        [''Add more relevant keywords from the job description'',
         ''Include quantifiable achievements and metrics'',
         ''Use action verbs to describe your experience'']
      else if s < 80 then
        [''Consider adding more industry-specific terminology'',
         ''Ensure all required sections are present'',
         ''Remove any complex formatting or tables'']
      else
        [''Great job! Your CV is well-optimized for ATS'',
         ''Consider customizing keywords for specific job applications''])"

section \<open>Local heuristic scorer\<close>

definition commonKeywords :: "string list" where
  "commonKeywords =
     [''python'', ''javascript'', ''react'', ''node.js'', ''sql'', ''aws'', ''docker'',
      ''kubernetes'', ''machine learning'', ''data analysis'', ''project management'',
      ''leadership'', ''communication'', ''teamwork'', ''problem solving'',
      ''analytical skills'', ''agile'', ''scrum'', ''git'', ''api'', ''rest'',
      ''microservices'']"

definition wordsOf :: "string \<Rightarrow> string list" where
  \<comment> \<open>\<^verbatim>\<open>words\<close>, from the lowercased text\<close>
  "wordsOf text = filter (\<lambda>word. length word > 0) (split_ws text)"

definition foundKeywords :: "string \<Rightarrow> string list" where
  "foundKeywords text = filter (\<lambda>keyword. includes_str text keyword) commonKeywords"

definition keywordScore :: "string \<Rightarrow> number" where
  "keywordScore text =
     (of_nat (length (foundKeywords text)) / of_nat (length commonKeywords)) * 100"

definition formattingScore :: "string \<Rightarrow> number" where
  "formattingScore text =
     (let s0 = 100;
          s1 = (if includes_str text ''table'' \<or> includes_str text ''image'' then s0 - 30 else s0);
          s2 = (if length (wordsOf text) > 2000 then s1 - 20 else s1);
          s3 = (if length (wordsOf text) < 200 then s2 - 15 else s2)
      in s3)"

definition structureScore :: "string \<Rightarrow> number" where
  "structureScore text =
     (let s0 = 100;
          s1 = (if \<not> includes_str text ''email'' \<and> \<not> includes_str text ''@'' then s0 - 20 else s0);
          s2 = (if \<not> includes_str text ''experience'' then s1 - 25 else s1);
          s3 = (if \<not> includes_str text ''education'' then s2 - 20 else s2);
          s4 = (if \<not> includes_str text ''skills'' then s3 - 20 else s3)
      in s4)"

definition totalScore :: "string \<Rightarrow> number" where
  "totalScore text =
     js_round ((keywordScore text * (4 / 10)) + (formattingScore text * (3 / 10))
               + (structureScore text * (3 / 10)))"

definition calculateLocalATSScore :: "string \<Rightarrow> ATSScoreResult" where
  "calculateLocalATSScore cvText =
     (let text = toLowerCase cvText
      in \<lparr> score = max 0 (min 100 (totalScore text)),
           suggestions = generateSuggestions (totalScore text),
           keywords_field = foundKeywords text,
           missingKeywords =
             take 5 (filter (\<lambda>k. k \<notin> set (foundKeywords text)) commonKeywords),
           breakdown = Some \<lparr> keywordMatch = js_round (keywordScore text),
                              formatting = js_round (formattingScore text),
                              structure_field = js_round (structureScore text),
                              contentQuality = 75 \<rparr> \<rparr>)"

section \<open>Helper scorers of the remote adapters\<close>

definition techKeywords :: "string list" where
  \<comment> \<open>local constant of \<^verbatim>\<open>calculateBasicATSScore\<close>\<close>
  "techKeywords = [''python'', ''javascript'', ''react'', ''sql'', ''aws'']"

definition actionVerbs :: "string list" where
  \<comment> \<open>local constant of \<^verbatim>\<open>calculateBasicATSScore\<close>\<close>
  "actionVerbs = [''developed'', ''implemented'', ''managed'', ''created'']"

definition calculateBasicATSScore :: "string \<Rightarrow> string \<Rightarrow> number" where
  "calculateBasicATSScore cvText summary =
     (let text = toLowerCase cvText;
          summaryLower = toLowerCase summary;
          s0 = 70;
          s1 = (if length summaryLower > 50 then s0 + 10 else s0);
          foundTech = filter (\<lambda>k. includes_str text k) techKeywords;
          s2 = s1 + (of_nat (length foundTech) / of_nat (length techKeywords)) * 15;
          foundVerbs = filter (\<lambda>v. includes_str text v) actionVerbs;
          s3 = s2 + (of_nat (length foundVerbs) / of_nat (length actionVerbs)) * 5
      in min 100 s3)"

definition extractKeywords :: "string \<Rightarrow> string list" where
  "extractKeywords text =
     filter (\<lambda>keyword. includes_str (toLowerCase text) (toLowerCase keyword))
       [''python'', ''javascript'', ''react'', ''node.js'', ''sql'', ''aws'', ''docker'',
        ''project management'', ''leadership'', ''communication'', ''teamwork'']"

record entity =
  entity_name :: string
  entity_type :: string
  salience :: number

definition calculateScoreFromEntities :: "entity list \<Rightarrow> string \<Rightarrow> number" where
  "calculateScoreFromEntities entities cvText =
     (let s0 = 70;
          relevantEntities = filter (\<lambda>e. salience e > 1 / 100) entities;
          s1 = s0 + min 20 (of_nat (length relevantEntities) * 2);
          hasTechnicalTerms =
            list_ex (\<lambda>e. entity_type e = ''ORGANIZATION'' \<or> entity_type e = ''OTHER'') entities;
          s2 = (if hasTechnicalTerms then s1 + 10 else s1)
      in min 100 s2)"

section \<open>Remote provider adapters\<close>

text \<open>
  An adapter makes one \<^verbatim>\<open>fetch\<close> call. What the network answers is an input of the model:
  the call is rejected, the status is not a success, the body is not JSON, or the body is
  a JSON value. A JSON body is \<^verbatim>\<open>null\<close>, on which reading a property throws, or a value
  whose properties are read at the types the adapter expects, an absent property being
  \<open>None\<close>. An exception is a value \<open>Inl\<close> of the result.
\<close>

datatype error = Error string

datatype 'a json = JNull | JValue 'a

datatype 'a response = FetchRejects | NotOk | JsonRejects | Json "'a json"

definition try_catch :: "error + 'a \<Rightarrow> (error \<Rightarrow> error + 'a) \<Rightarrow> error + 'a" where
  "try_catch body handler = (case body of Inl e \<Rightarrow> handler e | Inr v \<Rightarrow> Inr v)"

record rw_data =
  rw_score :: "number option"
  rw_suggestions :: "string list option"
  rw_keywords :: "string list option"
  rw_missing_keywords :: "string list option"

definition getResumeWordedScore :: "string \<Rightarrow> rw_data response \<Rightarrow> error + ATSScoreResult" where
  "getResumeWordedScore cvText resp =
     try_catch
       (case resp of
          FetchRejects \<Rightarrow> Inl (Error ''fetch failed'')
        | NotOk \<Rightarrow> Inl (Error ''ResumeWorded API failed'')
        | JsonRejects \<Rightarrow> Inl (Error ''SyntaxError'')
        | Json JNull \<Rightarrow> Inl (Error ''TypeError'')
        | Json (JValue data) \<Rightarrow>
            Inr \<lparr> score = (case rw_score data of
                              None \<Rightarrow> 75
                            | Some s \<Rightarrow> if s = 0 then 75 else s),
                   suggestions = (case rw_suggestions data of None \<Rightarrow> [] | Some xs \<Rightarrow> xs),
                   keywords_field = (case rw_keywords data of None \<Rightarrow> [] | Some xs \<Rightarrow> xs),
                   missingKeywords =
                     (case rw_missing_keywords data of None \<Rightarrow> [] | Some xs \<Rightarrow> xs),
                   breakdown = None \<rparr>)
       (\<lambda>error. Inl (Error ''Failed to get ATS score from ResumeWorded''))"

definition getHuggingFaceScore ::
  "string \<Rightarrow> string option response \<Rightarrow> error + ATSScoreResult" where
  \<comment> \<open>the payload is \<^verbatim>\<open>data[0]?.summary_text\<close>, \<open>None\<close> when it is undefined\<close>
  "getHuggingFaceScore cvText resp =
     try_catch
       (case resp of
          FetchRejects \<Rightarrow> Inl (Error ''fetch failed'')
        | NotOk \<Rightarrow> Inl (Error ''Hugging Face API failed'')
        | JsonRejects \<Rightarrow> Inl (Error ''SyntaxError'')
        | Json JNull \<Rightarrow> Inl (Error ''TypeError'')
        | Json (JValue summary_text) \<Rightarrow>
            (let summary = (case summary_text of None \<Rightarrow> [] | Some s \<Rightarrow> s);
                 score = calculateBasicATSScore cvText summary
             in Inr \<lparr> score = score,
                      suggestions = generateSuggestions score,
                      keywords_field = extractKeywords cvText,
                      missingKeywords = [],
                      breakdown = None \<rparr>))
       (\<lambda>error. Inl (Error ''Failed to get ATS score from Hugging Face''))"

definition getGoogleNLPScore ::
  "string \<Rightarrow> entity list option response \<Rightarrow> error + ATSScoreResult" where
  \<comment> \<open>the payload is \<^verbatim>\<open>data.entities\<close>, \<open>None\<close> when it is undefined\<close>
  "getGoogleNLPScore cvText resp =
     try_catch
       (case resp of
          FetchRejects \<Rightarrow> Inl (Error ''fetch failed'')
        | NotOk \<Rightarrow> Inl (Error ''Google NLP API failed'')
        | JsonRejects \<Rightarrow> Inl (Error ''SyntaxError'')
        | Json JNull \<Rightarrow> Inl (Error ''TypeError'')
        | Json (JValue data_entities) \<Rightarrow>
            (let entities = (case data_entities of None \<Rightarrow> [] | Some es \<Rightarrow> es);
                 technicalEntities =
                   filter (\<lambda>e. entity_type e = ''ORGANIZATION'' \<or> entity_type e = ''OTHER'')
                     entities;
                 score = calculateScoreFromEntities technicalEntities cvText
             in Inr \<lparr> score = score,
                      suggestions = generateSuggestions score,
                      keywords_field = take 10 (map entity_name technicalEntities),
                      missingKeywords = [],
                      breakdown = None \<rparr>))
       (\<lambda>error. Inl (Error ''Failed to get ATS score from Google NLP''))"

section \<open>Scoring orchestrator\<close>

datatype apiPreference = Resumeworded | Huggingface | Google | Local

record network =
  resumeworded_answer :: "rw_data response"
  huggingface_answer :: "string option response"
  google_answer :: "entity list option response"

definition selected :: "string \<Rightarrow> apiPreference \<Rightarrow> network \<Rightarrow> error + ATSScoreResult" where
  \<comment> \<open>the \<^verbatim>\<open>switch\<close> inside the \<^verbatim>\<open>try\<close> block of \<^verbatim>\<open>getATSScore\<close>\<close>
  "selected cvText pref net =
     (case pref of
        Resumeworded \<Rightarrow> getResumeWordedScore cvText (resumeworded_answer net)
      | Huggingface \<Rightarrow> getHuggingFaceScore cvText (huggingface_answer net)
      | Google \<Rightarrow> getGoogleNLPScore cvText (google_answer net)
      | Local \<Rightarrow> Inr (calculateLocalATSScore cvText))"

definition getATSScore ::
  "string \<Rightarrow> apiPreference option \<Rightarrow> network \<Rightarrow> error + ATSScoreResult" where
  \<comment> \<open>an omitted preference is \<^verbatim>\<open>'local'\<close>\<close>
  "getATSScore cvText preference net =
     (let apiPreference = (case preference of None \<Rightarrow> Local | Some p \<Rightarrow> p)
      in try_catch (selected cvText apiPreference net)
           (\<lambda>error. Inr (calculateLocalATSScore cvText)))"

section \<open>Properties of the primitives\<close>

lemma js_round_mono: "x \<le> y \<Longrightarrow> js_round x \<le> js_round y"
  unfolding js_round_def by (simp add: floor_mono)

lemma js_round_of_int: "js_round (of_int n) = of_int n"
  unfolding js_round_def by simp linarith

lemma js_round_ge: "of_int n - 1 / 2 \<le> x \<Longrightarrow> of_int n \<le> js_round x"
  unfolding js_round_def by (simp add: le_floor_iff)

lemma js_round_le: "x \<le> of_int n \<Longrightarrow> js_round x \<le> of_int n"
  unfolding js_round_def by (simp add: floor_le_iff)

lemma startsWith_iff: "startsWith t k \<longleftrightarrow> (\<exists>s. t = k @ s)"
  by (induction t k rule: startsWith.induct) auto

lemma includes_str_iff: "includes_str t k \<longleftrightarrow> (\<exists>p s. t = p @ k @ s)"
proof (induction t)
  case Nil
  then show ?case by auto
next
  case (Cons c cs)
  show ?case
  proof
    assume "includes_str (c # cs) k"
    then consider "startsWith (c # cs) k" | "includes_str cs k" by auto
    then show "\<exists>p s. c # cs = p @ k @ s"
    proof cases
      case 1
      then obtain s where "c # cs = k @ s" using startsWith_iff by blast
      then have "c # cs = [] @ k @ s" by simp
      then show ?thesis by blast
    next
      case 2
      then obtain p s where "cs = p @ k @ s" using Cons.IH by blast
      then have "c # cs = (c # p) @ k @ s" by simp
      then show ?thesis by blast
    qed
  next
    assume "\<exists>p s. c # cs = p @ k @ s"
    then obtain p s where eq: "c # cs = p @ k @ s" by blast
    show "includes_str (c # cs) k"
    proof (cases p)
      case Nil
      with eq have "startsWith (c # cs) k" using startsWith_iff by auto
      then show ?thesis by simp
    next
      case (Cons a p')
      with eq have "cs = p' @ k @ s" by simp
      then have "includes_str cs k" using Cons.IH by blast
      then show ?thesis by simp
    qed
  qed
qed

lemma includes_str_append: "includes_str t k \<Longrightarrow> includes_str (t @ s) k"
proof -
  assume "includes_str t k"
  then obtain p q where "t = p @ k @ q" using includes_str_iff by blast
  then have "t @ s = p @ k @ (q @ s)" by simp
  then show ?thesis using includes_str_iff by blast
qed

lemma toLowerCase_append: "toLowerCase (t @ s) = toLowerCase t @ toLowerCase s"
  by (simp add: toLowerCase_def)

lemma length_filter_mono:
  "(\<And>x. x \<in> set xs \<Longrightarrow> P x \<Longrightarrow> Q x) \<Longrightarrow> length (filter P xs) \<le> length (filter Q xs)"
  by (induction xs) auto

lemma js_round_numeral: "js_round (numeral n) = numeral n"
  using js_round_of_int [of "numeral n"] by simp

lemma js_round_zero: "js_round 0 = 0"
  using js_round_of_int [of 0] by simp

lemma js_round_range:
  assumes "0 \<le> x" and "x \<le> 100"
  shows "0 \<le> js_round x \<and> js_round x \<le> 100"
proof -
  have "of_int 0 \<le> js_round x" by (rule js_round_ge) (use assms in simp)
  moreover have "js_round x \<le> of_int 100" by (rule js_round_le) (use assms in simp)
  ultimately show ?thesis by simp
qed

lemma length_techKeywords: "length techKeywords = 5"
  by (simp add: techKeywords_def)

lemma length_actionVerbs: "length actionVerbs = 4"
  by (simp add: actionVerbs_def)

section \<open>Ranges of the local sub-scores\<close>

lemma length_foundKeywords: "length (foundKeywords t) \<le> 22"
proof -
  have "length (foundKeywords t) \<le> length commonKeywords"
    unfolding foundKeywords_def by (rule length_filter_le)
  also have "length commonKeywords = 22" by (simp add: commonKeywords_def)
  finally show ?thesis .
qed

lemma keywordScore_range: "0 \<le> keywordScore t \<and> keywordScore t \<le> 100"
proof -
  have len: "length commonKeywords = 22" by (simp add: commonKeywords_def)
  have "(of_nat (length (foundKeywords t)) :: rat) \<le> 22"
    using length_foundKeywords [of t] by (metis of_nat_le_iff of_nat_numeral)
  then show ?thesis unfolding keywordScore_def len by simp
qed

lemma formattingScore_range: "50 \<le> formattingScore t \<and> formattingScore t \<le> 100"
  unfolding formattingScore_def Let_def by simp

lemma structureScore_range: "15 \<le> structureScore t \<and> structureScore t \<le> 100"
  unfolding structureScore_def Let_def by simp

lemma totalScore_range: "20 \<le> totalScore t \<and> totalScore t \<le> 100"
proof -
  let ?w = "keywordScore t * (4 / 10) + formattingScore t * (3 / 10)
            + structureScore t * (3 / 10)"
  have lo: "39 / 2 \<le> ?w"
    using keywordScore_range [of t] formattingScore_range [of t]
      structureScore_range [of t] by simp
  have hi: "?w \<le> 100"
    using keywordScore_range [of t] formattingScore_range [of t]
      structureScore_range [of t] by simp
  have "of_int 20 \<le> js_round ?w" by (rule js_round_ge) (use lo in simp)
  moreover have "js_round ?w \<le> of_int 100" by (rule js_round_le) (use hi in simp)
  ultimately show ?thesis unfolding totalScore_def by simp
qed

section \<open>Monotonicity and the empty text\<close>

lemma keywordScore_append: "keywordScore (toLowerCase t) \<le> keywordScore (toLowerCase (t @ s))"
proof -
  have "length (foundKeywords (toLowerCase t)) \<le> length (foundKeywords (toLowerCase (t @ s)))"
    unfolding foundKeywords_def toLowerCase_append
    by (rule length_filter_mono) (rule includes_str_append)
  then have "(of_nat (length (foundKeywords (toLowerCase t))) :: rat)
             \<le> of_nat (length (foundKeywords (toLowerCase (t @ s))))"
    by simp
  then show ?thesis
    unfolding keywordScore_def by (simp add: divide_right_mono commonKeywords_def)
qed

lemma missing_filter:
  "filter (\<lambda>k. k \<notin> set (filter P xs)) xs = filter (\<lambda>k. \<not> P k) xs"
  by (rule filter_cong) auto

lemma foundKeywords_empty: "foundKeywords [] = []"
  by (simp add: foundKeywords_def commonKeywords_def)

lemma keywordScore_empty: "keywordScore [] = 0"
  by (simp add: keywordScore_def foundKeywords_empty)

lemma wordsOf_empty: "wordsOf [] = []"
  by (simp add: wordsOf_def split_ws_def)

lemma formattingScore_empty: "formattingScore [] = 85"
  by (simp add: formattingScore_def wordsOf_empty)

lemma structureScore_empty: "structureScore [] = 15"
  by (simp add: structureScore_def)

lemma totalScore_empty: "totalScore [] = 30"
  by (simp add: totalScore_def keywordScore_empty formattingScore_empty structureScore_empty
      js_round_numeral)

section \<open>One request to the summarization adapter\<close>

lemma toLowerCase_developed: "toLowerCase ''developed'' = ''developed''"
  by (simp add: toLowerCase_def toLowerCaseChar_def)

lemma foundTech_developed: "filter (\<lambda>k. includes_str ''developed'' k) techKeywords = []"
  by (simp add: techKeywords_def)

lemma foundVerbs_developed:
  "filter (\<lambda>v. includes_str ''developed'' v) actionVerbs = [''developed'']"
  by (simp add: actionVerbs_def)

lemma calculateBasicATSScore_developed:
  "calculateBasicATSScore ''developed'' ''developed'' = 285 / 4"
  unfolding calculateBasicATSScore_def Let_def toLowerCase_developed foundTech_developed
    foundVerbs_developed
  by (simp add: length_actionVerbs length_techKeywords)

lemma extractKeywords_developed: "extractKeywords ''developed'' = []"
  unfolding extractKeywords_def toLowerCase_developed
  by (simp add: toLowerCase_def toLowerCaseChar_def)

lemma not_integer_285_4: "(285 / 4 :: rat) \<notin> \<int>"
proof
  assume "(285 / 4 :: rat) \<in> \<int>"
  then obtain n :: int where "(285 / 4 :: rat) = of_int n" by (rule Ints_cases)
  then have "(of_int 285 :: rat) = of_int (4 * n)" by simp
  then have "(285 :: int) = 4 * n" by (simp only: of_int_eq_iff)
  then show False by presburger
qed

section \<open>The claims\<close>

text \<open>
  C1. For every input text, the result of the local heuristic scorer
  (\<open>calculateLocalATSScore\<close>) has a score between 0 and 100.
\<close>

theorem local_score_in_range:
  "0 \<le> score (calculateLocalATSScore cvText) \<and> score (calculateLocalATSScore cvText) \<le> 100"
  by (simp add: calculateLocalATSScore_def Let_def)

text \<open>
  C2. For every input text, every provider preference and every answer of the network:
  if the selected adapter raises an error, \<open>getATSScore\<close> returns exactly the result of
  \<open>calculateLocalATSScore\<close> on the same text; and \<open>getATSScore\<close> always returns a
  result, never an error.
\<close>

theorem getATSScore_fallback:
  "(selected cvText (case preference of None \<Rightarrow> Local | Some p \<Rightarrow> p) net = Inl e
      \<longrightarrow> getATSScore cvText preference net = Inr (calculateLocalATSScore cvText))
   \<and> (\<exists>r. getATSScore cvText preference net = Inr r)"
  unfolding getATSScore_def Let_def try_catch_def
  by (simp split: sum.splits)

theorem getATSScore_fallback_witness:
  "selected ''developed'' Huggingface
     \<lparr> resumeworded_answer = NotOk, huggingface_answer = NotOk, google_answer = NotOk \<rparr>
     = Inl (Error ''Failed to get ATS score from Hugging Face'')
   \<and> getATSScore ''developed'' (Some Huggingface)
       \<lparr> resumeworded_answer = NotOk, huggingface_answer = NotOk, google_answer = NotOk \<rparr>
     = Inr (calculateLocalATSScore ''developed'')"
proof -
  let ?net = "\<lparr> resumeworded_answer = NotOk, huggingface_answer = NotOk,
                 google_answer = NotOk \<rparr>"
  have h: "selected ''developed'' Huggingface ?net
           = Inl (Error ''Failed to get ATS score from Hugging Face'')"
    by (simp add: selected_def getHuggingFaceScore_def try_catch_def)
  from getATSScore_fallback
    [of "''developed''" "Some Huggingface" ?net
        "Error ''Failed to get ATS score from Hugging Face''"] h
  show ?thesis by simp
qed

text \<open>
  C3. The claim is that every provider path yields an integer score. The summarization
  adapter does not: for the text \<^verbatim>\<open>developed\<close> one of the four action verbs matches, the
  bonus is 5 / 4, and the adapter returns the score 71.25 as \<open>calculateBasicATSScore\<close>
  computed it, with no rounding. The local scorer rounds its total with \<^verbatim>\<open>Math.round\<close>.
\<close>

theorem huggingface_score_fractional:
  "getATSScore ''developed'' (Some Huggingface)
     \<lparr> resumeworded_answer = NotOk,
       huggingface_answer = Json (JValue (Some ''developed'')),
       google_answer = NotOk \<rparr>
   = Inr \<lparr> score = 285 / 4,
           suggestions = [''Consider adding more industry-specific terminology'',
                          ''Ensure all required sections are present'',
                          ''Remove any complex formatting or tables''],
           keywords_field = [], missingKeywords = [], breakdown = None \<rparr>
   \<and> (285 / 4 :: rat) \<notin> \<int>"
  by (simp add: getATSScore_def selected_def getHuggingFaceScore_def try_catch_def
      calculateBasicATSScore_developed extractKeywords_developed generateSuggestions_def
      not_integer_285_4)

text \<open>
  C4. On the empty string the local heuristic scorer gives the sub-scores keywordMatch 0,
  formatting 85 (only the penalty for fewer than 200 words applies) and structure 15 (all
  four section penalties apply), and the aggregate score is
  round(0.4 * 0 + 0.3 * 85 + 0.3 * 15) = 30.
\<close>

theorem empty_input_scores:
  "breakdown (calculateLocalATSScore '''')
     = Some \<lparr> keywordMatch = 0, formatting = 85, structure_field = 15, contentQuality = 75 \<rparr>
   \<and> score (calculateLocalATSScore '''') = 30
   \<and> js_round (4 / 10 * 0 + 3 / 10 * 85 + 3 / 10 * 15) = 30
   \<and> keywordScore (toLowerCase '''') = 0
   \<and> formattingScore (toLowerCase '''') = 100 - 15
   \<and> structureScore (toLowerCase '''') = 100 - 20 - 25 - 20 - 20"
  by (simp add: calculateLocalATSScore_def toLowerCase_def keywordScore_empty
      formattingScore_empty structureScore_empty totalScore_empty js_round_numeral js_round_zero)

text \<open>
  C5. For every input text, \<open>keywords\<close> are exactly the catalog terms that occur in the
  lowercased text, in catalog order; \<open>missingKeywords\<close> are the first (at most 5) catalog
  terms that do not occur, in catalog order; and the two lists are disjoint.
\<close>

theorem keywords_partition:
  "keywords_field (calculateLocalATSScore cvText)
     = filter (\<lambda>k. includes_str (toLowerCase cvText) k) commonKeywords
   \<and> missingKeywords (calculateLocalATSScore cvText)
     = take 5 (filter (\<lambda>k. \<not> includes_str (toLowerCase cvText) k) commonKeywords)
   \<and> length (missingKeywords (calculateLocalATSScore cvText)) \<le> 5
   \<and> set (keywords_field (calculateLocalATSScore cvText))
       \<inter> set (missingKeywords (calculateLocalATSScore cvText)) = {}"
proof -
  let ?t = "toLowerCase cvText"
  have k: "keywords_field (calculateLocalATSScore cvText) = filter (\<lambda>k. includes_str ?t k) commonKeywords"
    by (simp add: calculateLocalATSScore_def Let_def foundKeywords_def)
  have m: "missingKeywords (calculateLocalATSScore cvText)
     = take 5 (filter (\<lambda>k. \<not> includes_str ?t k) commonKeywords)"
    unfolding calculateLocalATSScore_def Let_def foundKeywords_def missing_filter by simp
  have l: "length (missingKeywords (calculateLocalATSScore cvText)) \<le> 5"
    unfolding m by simp
  have "set (take 5 (filter (\<lambda>k. \<not> includes_str ?t k) commonKeywords))
        \<subseteq> set (filter (\<lambda>k. \<not> includes_str ?t k) commonKeywords)"
    by (rule set_take_subset)
  then have d: "set (keywords_field (calculateLocalATSScore cvText))
       \<inter> set (missingKeywords (calculateLocalATSScore cvText)) = {}"
    unfolding k m by auto
  from k m l d show ?thesis by blast
qed

text \<open>
  C6. For every input text, the four sub-scores of the breakdown (keywordMatch, formatting,
  structure, contentQuality) lie between 0 and 100. The three sub-scores that enter the
  weighted sum are in that range before they are weighted: clamping each of them to
  [0, 100] first leaves it unchanged.
\<close>

theorem breakdown_in_range:
  "\<exists>b. breakdown (calculateLocalATSScore cvText) = Some b
       \<and> 0 \<le> keywordMatch b \<and> keywordMatch b \<le> 100
       \<and> 0 \<le> formatting b \<and> formatting b \<le> 100
       \<and> 0 \<le> structure_field b \<and> structure_field b \<le> 100
       \<and> 0 \<le> contentQuality b \<and> contentQuality b \<le> 100
       \<and> max 0 (min 100 (keywordScore (toLowerCase cvText))) = keywordScore (toLowerCase cvText)
       \<and> max 0 (min 100 (formattingScore (toLowerCase cvText)))
           = formattingScore (toLowerCase cvText)
       \<and> max 0 (min 100 (structureScore (toLowerCase cvText)))
           = structureScore (toLowerCase cvText)"
proof -
  let ?t = "toLowerCase cvText"
  have k: "0 \<le> keywordScore ?t \<and> keywordScore ?t \<le> 100" by (rule keywordScore_range)
  have f: "0 \<le> formattingScore ?t \<and> formattingScore ?t \<le> 100"
    using formattingScore_range [of ?t] by simp
  have s: "0 \<le> structureScore ?t \<and> structureScore ?t \<le> 100"
    using structureScore_range [of ?t] by simp
  have rk: "0 \<le> js_round (keywordScore ?t) \<and> js_round (keywordScore ?t) \<le> 100"
    using k by (simp add: js_round_range)
  have rf: "0 \<le> js_round (formattingScore ?t) \<and> js_round (formattingScore ?t) \<le> 100"
    using f by (simp add: js_round_range)
  have rs: "0 \<le> js_round (structureScore ?t) \<and> js_round (structureScore ?t) \<le> 100"
    using s by (simp add: js_round_range)
  show ?thesis
    using k f s rk rf rs by (simp add: calculateLocalATSScore_def Let_def)
qed

text \<open>
  C7. The suggestion generator returns a fixed list that depends only on the band of the
  score: three corrective suggestions below 60, three refinement suggestions from 60 up to
  (not including) 80, two affirming suggestions from 80 on.
\<close>

theorem suggestions_by_band:
  "(s < 60 \<longrightarrow> generateSuggestions s =
      [''Add more relevant keywords from the job description'',
       ''Include quantifiable achievements and metrics'',
       ''Use action verbs to describe your experience''])
   \<and> (60 \<le> s \<and> s < 80 \<longrightarrow> generateSuggestions s =
      [''Consider adding more industry-specific terminology'',
       ''Ensure all required sections are present'',
       ''Remove any complex formatting or tables''])
   \<and> (80 \<le> s \<longrightarrow> generateSuggestions s =
      [''Great job! Your CV is well-optimized for ATS'',
       ''Consider customizing keywords for specific job applications''])"
  by (simp add: generateSuggestions_def)

theorem suggestions_by_band_witness:
  "(45 :: rat) < 60 \<and> length (generateSuggestions 45) = 3
   \<and> (60 :: rat) \<le> 70 \<and> (70 :: rat) < 80 \<and> length (generateSuggestions 70) = 3
   \<and> generateSuggestions 70 \<noteq> generateSuggestions 45
   \<and> (80 :: rat) \<le> 95 \<and> length (generateSuggestions 95) = 2"
  using suggestions_by_band [of 45] suggestions_by_band [of 70] suggestions_by_band [of 95]
  by simp

text \<open>
  C8. Appending any suffix to the input text (in particular one made of further catalog
  keywords) never decreases the keywordMatch sub-score of the local heuristic scorer.
\<close>

theorem keywordMatch_monotone:
  "\<exists>b b'. breakdown (calculateLocalATSScore t) = Some b
         \<and> breakdown (calculateLocalATSScore (t @ s)) = Some b'
         \<and> keywordMatch b \<le> keywordMatch b'"
  using js_round_mono [OF keywordScore_append [of t s]]
  by (simp add: calculateLocalATSScore_def Let_def)

text \<open>
  C9. For every text and every summary, \<open>calculateBasicATSScore\<close> returns a value
  between 70 and 100: the base 70, plus 10 for a summary longer than 50 characters, plus
  3 for each matched technical keyword, plus 5 / 4 for each matched action verb, capped at
  100. Hence every score the summarization adapter returns lies between 70 and 100.
\<close>

theorem calculateBasicATSScore_range:
  "70 \<le> calculateBasicATSScore cvText summary
   \<and> calculateBasicATSScore cvText summary \<le> 100
   \<and> calculateBasicATSScore cvText summary
       = min 100 (70 + (if length (toLowerCase summary) > 50 then 10 else 0)
           + 3 * of_nat (length (filter (\<lambda>k. includes_str (toLowerCase cvText) k)
                   techKeywords))
           + (5 / 4) * of_nat (length (filter (\<lambda>v. includes_str (toLowerCase cvText) v)
                   actionVerbs)))
   \<and> (getHuggingFaceScore cvText resp = Inr r \<longrightarrow> 70 \<le> score r \<and> score r \<le> 100)"
proof -
  have eq: "calculateBasicATSScore cvText summary
       = min 100 (70 + (if length (toLowerCase summary) > 50 then 10 else 0)
           + 3 * of_nat (length (filter (\<lambda>k. includes_str (toLowerCase cvText) k)
                   techKeywords))
           + (5 / 4) * of_nat (length (filter (\<lambda>v. includes_str (toLowerCase cvText) v)
                   actionVerbs)))" for summary
    unfolding calculateBasicATSScore_def Let_def
    by (simp add: length_techKeywords length_actionVerbs mult.commute)
  have rng: "70 \<le> calculateBasicATSScore cvText summary
       \<and> calculateBasicATSScore cvText summary \<le> 100" for summary
    unfolding eq by simp
  have hf: "getHuggingFaceScore cvText resp = Inr r \<longrightarrow> 70 \<le> score r \<and> score r \<le> 100"
  proof
    assume a: "getHuggingFaceScore cvText resp = Inr r"
    then obtain summary where "score r = calculateBasicATSScore cvText summary"
      unfolding getHuggingFaceScore_def try_catch_def Let_def
      by (auto split: response.splits json.splits)
    then show "70 \<le> score r \<and> score r \<le> 100" using rng by simp
  qed
  from eq rng hf show ?thesis by blast
qed

theorem calculateBasicATSScore_range_witness:
  "getHuggingFaceScore ''developed'' (Json (JValue (Some ''developed'')))
     = Inr \<lparr> score = 285 / 4, suggestions = generateSuggestions (285 / 4),
             keywords_field = [], missingKeywords = [], breakdown = None \<rparr>
   \<and> (70 :: rat) \<le> 285 / 4 \<and> (285 / 4 :: rat) \<le> 100"
proof -
  let ?r = "\<lparr> score = 285 / 4, suggestions = generateSuggestions (285 / 4),
             keywords_field = [], missingKeywords = [], breakdown = None \<rparr>"
  have h: "getHuggingFaceScore ''developed'' (Json (JValue (Some ''developed''))) = Inr ?r"
    by (simp add: getHuggingFaceScore_def try_catch_def Let_def
        calculateBasicATSScore_developed extractKeywords_developed)
  from calculateBasicATSScore_range
    [of "''developed''" "''developed''" "Json (JValue (Some ''developed''))" ?r] h
  show ?thesis by simp
qed

text \<open>
  C10. For every input text, the formatting sub-score is at least 50 and the structure
  sub-score at least 15, so the rounded weighted total is at least 20. The lower clamp to 0
  is therefore never active, the returned score is the total itself and at least 20, and
  the suggestions, computed from the total, are those of the returned score.
\<close>

theorem total_at_least_20:
  "50 \<le> formattingScore (toLowerCase cvText)
   \<and> 15 \<le> structureScore (toLowerCase cvText)
   \<and> 20 \<le> totalScore (toLowerCase cvText)
   \<and> max 0 (min 100 (totalScore (toLowerCase cvText))) = min 100 (totalScore (toLowerCase cvText))
   \<and> 20 \<le> score (calculateLocalATSScore cvText)
   \<and> score (calculateLocalATSScore cvText) = totalScore (toLowerCase cvText)
   \<and> suggestions (calculateLocalATSScore cvText)
       = generateSuggestions (score (calculateLocalATSScore cvText))"
proof -
  let ?t = "toLowerCase cvText"
  have t: "20 \<le> totalScore ?t \<and> totalScore ?t \<le> 100" by (rule totalScore_range)
  then have sc: "score (calculateLocalATSScore cvText) = totalScore ?t"
    by (simp add: calculateLocalATSScore_def Let_def)
  have sg: "suggestions (calculateLocalATSScore cvText) = generateSuggestions (totalScore ?t)"
    by (simp add: calculateLocalATSScore_def Let_def)
  show ?thesis
    using t formattingScore_range [of ?t] structureScore_range [of ?t] unfolding sc sg by simp
qed

end
